theory Spec2Isabelle
  imports Complex_Main "HOL-Library.Word"
begin

section \<open>Data model\<close>

text \<open>
  The enumerations of \<^verbatim>\<open>Motor.hpp\<close>.  \<^verbatim>\<open>Cartridge\<close> carries its nominal speed in rpm as
  enumerator value (\<^verbatim>\<open>RED = 100, GREEN = 200, BLUE = 600, INVALID\<close>), which \<^verbatim>\<open>MotorGroup.cpp\<close>
  reads with \<^verbatim>\<open>static_cast<int>\<close>.
\<close>

datatype BrakeMode = COAST | BRAKE | HOLD | BrakeMode_INVALID

datatype Cartridge = RED | GREEN | BLUE | Cartridge_INVALID

fun Cartridge_int :: "Cartridge \<Rightarrow> int" where
  "Cartridge_int RED = 100"
| "Cartridge_int GREEN = 200"
| "Cartridge_int BLUE = 600"
| "Cartridge_int Cartridge_INVALID = 601"

text \<open>
  An \<^verbatim>\<open>Angle\<close> is a double in standard degrees.  Finite values are reals here; the three
  non-finite doubles are constructors of their own, so that the error sentinel
  \<^verbatim>\<open>from_stDeg(INFINITY)\<close> and the outcome of a division by zero are values of the model.
\<close>

datatype Angle = StDeg real | INFINITY | NEG_INFINITY | NOT_A_NUMBER

fun Angle_plus :: "Angle \<Rightarrow> Angle \<Rightarrow> Angle" where
  "Angle_plus (StDeg a) (StDeg b) = StDeg (a + b)"
| "Angle_plus NOT_A_NUMBER _ = NOT_A_NUMBER"
| "Angle_plus _ NOT_A_NUMBER = NOT_A_NUMBER"
| "Angle_plus INFINITY NEG_INFINITY = NOT_A_NUMBER"
| "Angle_plus NEG_INFINITY INFINITY = NOT_A_NUMBER"
| "Angle_plus INFINITY _ = INFINITY"
| "Angle_plus _ INFINITY = INFINITY"
| "Angle_plus NEG_INFINITY _ = NEG_INFINITY"
| "Angle_plus _ NEG_INFINITY = NEG_INFINITY"

fun Angle_times :: "Angle \<Rightarrow> real \<Rightarrow> Angle" where
  "Angle_times (StDeg a) r = StDeg (a * r)"
| "Angle_times NOT_A_NUMBER r = NOT_A_NUMBER"
| "Angle_times INFINITY r =
     (if 0 < r then INFINITY else if r < 0 then NEG_INFINITY else NOT_A_NUMBER)"
| "Angle_times NEG_INFINITY r =
     (if 0 < r then NEG_INFINITY else if r < 0 then INFINITY else NOT_A_NUMBER)"

text \<open>
  \<^verbatim>\<open>angle / n\<close> for an integer \<^verbatim>\<open>n\<close>: the integer becomes a double, and a zero divisor gives
  an infinity or a NaN as IEEE 754 says, where HOL's \<open>x / 0\<close> would be \<open>0\<close>.
\<close>

fun Angle_divide :: "Angle \<Rightarrow> int \<Rightarrow> Angle" where
  "Angle_divide (StDeg a) n =
     (if n \<noteq> 0 then StDeg (a / real_of_int n)
      else if 0 < a then INFINITY else if a < 0 then NEG_INFINITY else NOT_A_NUMBER)"
| "Angle_divide NOT_A_NUMBER n = NOT_A_NUMBER"
| "Angle_divide INFINITY n = (if 0 \<le> n then INFINITY else NEG_INFINITY)"
| "Angle_divide NEG_INFINITY n = (if 0 \<le> n then NEG_INFINITY else INFINITY)"

definition INT_MAX :: int where
  "INT_MAX = 2147483647"

definition EEXIST :: int where
  "EEXIST = 17"

text \<open>
  \<^verbatim>\<open>pros::Motor\<close> takes its port as \<^verbatim>\<open>std::int8_t\<close>, and \<^verbatim>\<open>m_motors\<close> stores
  \<^verbatim>\<open>std::pair<int8_t, bool>\<close>: an \<^verbatim>\<open>int\<close> port is narrowed modulo \<open>2^8\<close> on the way in.
\<close>

definition int8 :: "int \<Rightarrow> int" where
  "int8 port = sint (word_of_int port :: 8 word)"

record MotorGroup =
  m_motors :: "(8 word \<times> bool) list"
  m_outputVelocity :: real

section \<open>The single-motor driver\<close>

text \<open>
  Every command \<^verbatim>\<open>MotorGroup.cpp\<close> sends to a motor, with the signed port it was sent to.
\<close>

datatype command =
  Move int real
| MoveVelocity int real
| Brake int
| SetBrakeMode int BrakeMode
| SetAngle int Angle

text \<open>
  The robot as the group sees it.  The readings are what the driver's getters answer for a
  signed port; \<open>r_move\<close>, \<open>r_moveVelocity\<close>, \<open>r_brake\<close>, \<open>r_setBrakeMode\<close> and \<open>r_setAngle\<close>
  are the return codes of the commands (\<open>0\<close> on success, \<^verbatim>\<open>INT_MAX\<close> on failure); \<open>issued\<close>
  is the list of commands sent so far, oldest first; \<open>errno\<close> is the C library's.
  \<open>installed\<close> is \<^verbatim>\<open>pros::Motor::is_installed\<close> and \<open>connected\<close> is \<^verbatim>\<open>Motor::isConnected\<close>
  (0 not connected, 1 connected, anything else an error): two probes of two classes, so
  two fields.
\<close>

record hardware =
  installed :: "int \<Rightarrow> bool"
  connected :: "int \<Rightarrow> int"
  angle :: "int \<Rightarrow> Angle"
  cartridge :: "int \<Rightarrow> Cartridge"
  brakeMode :: "int \<Rightarrow> BrakeMode"
  r_move :: "int \<Rightarrow> real \<Rightarrow> int"
  r_moveVelocity :: "int \<Rightarrow> real \<Rightarrow> int"
  r_brake :: "int \<Rightarrow> int"
  r_setBrakeMode :: "int \<Rightarrow> BrakeMode \<Rightarrow> int"
  r_setAngle :: "int \<Rightarrow> Angle \<Rightarrow> int"
  issued :: "command list"
  errno :: int

text \<open>
  Modelled from the spec: the member functions of \<^verbatim>\<open>lemlib::Motor\<close>, whose bodies
  (\<^verbatim>\<open>Motor.cpp\<close>) are not among the sources; \<^verbatim>\<open>Motor.hpp\<close> declares and documents them.
  A command is recorded and answers its return code; a \<^verbatim>\<open>setBrakeMode\<close> or \<^verbatim>\<open>setAngle\<close>
  that succeeds changes what the matching getter reads on that port afterwards.
\<close>

definition Motor_move :: "int \<Rightarrow> real \<Rightarrow> hardware \<Rightarrow> int \<times> hardware" where
  "Motor_move p percent h =
     (r_move h p percent, h\<lparr>issued := issued h @ [Move p percent]\<rparr>)"

definition Motor_moveVelocity :: "int \<Rightarrow> real \<Rightarrow> hardware \<Rightarrow> int \<times> hardware" where
  "Motor_moveVelocity p velocity h =
     (r_moveVelocity h p velocity, h\<lparr>issued := issued h @ [MoveVelocity p velocity]\<rparr>)"

definition Motor_brake :: "int \<Rightarrow> hardware \<Rightarrow> int \<times> hardware" where
  "Motor_brake p h = (r_brake h p, h\<lparr>issued := issued h @ [Brake p]\<rparr>)"

definition Motor_setBrakeMode :: "int \<Rightarrow> BrakeMode \<Rightarrow> hardware \<Rightarrow> int \<times> hardware" where
  "Motor_setBrakeMode p mode h =
     (r_setBrakeMode h p mode,
      h\<lparr>brakeMode := (if r_setBrakeMode h p mode = 0 then (brakeMode h)(p := mode)
                       else brakeMode h),
        issued := issued h @ [SetBrakeMode p mode]\<rparr>)"

definition Motor_setAngle :: "int \<Rightarrow> Angle \<Rightarrow> hardware \<Rightarrow> int \<times> hardware" where
  "Motor_setAngle p a h =
     (r_setAngle h p a,
      h\<lparr>angle := (if r_setAngle h p a = 0 then (angle h)(p := a) else angle h),
        issued := issued h @ [SetAngle p a]\<rparr>)"

section \<open>MotorGroup: the reconfiguration protocol\<close>

text \<open>
  \<^verbatim>\<open>configureMotor\<close>, first loop (the brake mode).  Each pair of \<^verbatim>\<open>m_motors\<close> gives the motor
  \<^verbatim>\<open>pros::Motor(pair.second)\<close>: the flag, not the port, so port 1 for a flag that is set and
  port 0 otherwise.  The mode read from that motor is written with \<^verbatim>\<open>m.setBrakeMode(mode)\<close>,
  to the same motor.  The result is \<^verbatim>\<open>success\<close>.
\<close>

fun configureMotor_brakeMode :: "(8 word \<times> bool) list \<Rightarrow> hardware \<Rightarrow> bool \<times> hardware" where
  "configureMotor_brakeMode [] h = (True, h)"
| "configureMotor_brakeMode (pair # rest) h =
     (let m = (if snd pair then 1 else 0 :: int);
          mode = brakeMode h m
      in if mode = BrakeMode_INVALID then configureMotor_brakeMode rest h
         else (case Motor_setBrakeMode m mode h of
                 (r, h') \<Rightarrow> if r = 0 then (True, h') else (False, h')))"

text \<open>The second loop: the installed members other than the one being configured.\<close>

fun configureMotor_motors :: "int \<Rightarrow> (8 word \<times> bool) list \<Rightarrow> hardware \<Rightarrow> int list" where
  "configureMotor_motors port [] h = []"
| "configureMotor_motors port (pair # rest) h =
     (let m = sint (fst pair);
          connected = installed h m
      in if \<bar>m\<bar> = \<bar>port\<bar> then configureMotor_motors port rest h
         else if \<not> connected then configureMotor_motors port rest h
         else m # configureMotor_motors port rest h)"

text \<open>The third loop: the sum of the peers' angles as read, and the count of failed reads.\<close>

fun configureMotor_sum :: "int list \<Rightarrow> hardware \<Rightarrow> Angle \<Rightarrow> int \<Rightarrow> Angle \<times> int" where
  "configureMotor_sum [] h tempAngle errors = (tempAngle, errors)"
| "configureMotor_sum (m # ms) h tempAngle errors =
     (let result = angle h m
      in if result = INFINITY then configureMotor_sum ms h tempAngle (errors + 1)
         else if cartridge h m = Cartridge_INVALID
              then configureMotor_sum ms h tempAngle (errors + 1)
         else configureMotor_sum ms h (Angle_plus tempAngle result) errors)"

text \<open>
  The block that computes the angle to set: the mean of the valid peer readings, or
  \<^verbatim>\<open>0_stDeg\<close> when there is none to divide by.
\<close>

definition configureMotor_angle :: "int \<Rightarrow> (8 word \<times> bool) list \<Rightarrow> hardware \<Rightarrow> Angle" where
  "configureMotor_angle port ms h =
     (let motors = configureMotor_motors port ms h
      in case configureMotor_sum motors h (StDeg 0) 0 of
           (tempAngle, errors) \<Rightarrow>
             if int (length motors) \<noteq> errors
             then Angle_divide tempAngle (int (length motors) - errors)
             else StDeg 0)"

text \<open>
  \<^verbatim>\<open>configureMotor(port)\<close>.  The two returns are \<^verbatim>\<open>return success = false\<close>, which is \<open>0\<close>,
  when \<^verbatim>\<open>setAngle\<close> answers \<^verbatim>\<open>INT_MAX\<close>, and \<^verbatim>\<open>return !success\<close> otherwise.
\<close>

definition configureMotor :: "int \<Rightarrow> (8 word \<times> bool) list \<Rightarrow> hardware \<Rightarrow> int \<times> hardware" where
  "configureMotor port ms h =
     (let motor = int8 port
      in case configureMotor_brakeMode ms h of
           (success, h1) \<Rightarrow>
             (let success = (if cartridge h1 motor = Cartridge_INVALID then False else success)
              in case Motor_setAngle motor (configureMotor_angle port ms h1) h1 of
                   (result, h2) \<Rightarrow>
                     if result = INT_MAX then (0, h2)
                     else ((if success then 0 else 1), h2)))"

section \<open>MotorGroup: membership\<close>

text \<open>The two constructors: every port of the argument, in order, flagged connected.\<close>

definition MotorGroup_new :: "8 word list \<Rightarrow> real \<Rightarrow> MotorGroup" where
  "MotorGroup_new motors outputVelocity =
     \<lparr>m_motors = map (\<lambda>port. (port, True)) motors, m_outputVelocity = outputVelocity\<rparr>"

text \<open>
  \<^verbatim>\<open>getMotors\<close>.  The loop runs over \<^verbatim>\<open>m_motors\<close> by reference and writes the flags in
  place: \<open>done\<close> are the pairs already visited, as they now stand, and \<open>done @ pair # rest\<close>
  is the \<^verbatim>\<open>m_motors\<close> that \<^verbatim>\<open>configureMotor\<close> sees when it is called for \<open>pair\<close>.
\<close>

fun getMotors_loop ::
  "(8 word \<times> bool) list \<Rightarrow> (8 word \<times> bool) list \<Rightarrow> hardware \<Rightarrow> int list
     \<Rightarrow> (8 word \<times> bool) list \<times> hardware \<times> int list" where
  "getMotors_loop done [] h motors = (done, h, motors)"
| "getMotors_loop done (pair # rest) h motors =
     (if \<not> installed h (sint (fst pair))
      then getMotors_loop (done @ [(fst pair, False)]) rest h motors
      else if snd pair = False
      then (case configureMotor (sint (fst pair)) (done @ pair # rest) h of
              (r, h') \<Rightarrow>
                if r \<noteq> 0 then getMotors_loop (done @ [pair]) rest h' motors
                else getMotors_loop (done @ [(fst pair, True)]) rest h'
                       (motors @ [sint (fst pair)]))
      else getMotors_loop (done @ [(fst pair, True)]) rest h (motors @ [sint (fst pair)]))"

definition getMotors :: "MotorGroup \<Rightarrow> hardware \<Rightarrow> int list \<times> MotorGroup \<times> hardware" where
  "getMotors g h =
     (case getMotors_loop [] (m_motors g) h [] of
        (ms, h', motors) \<Rightarrow> (motors, g\<lparr>m_motors := ms\<rparr>, h'))"

text \<open>\<^verbatim>\<open>addMotor(int port)\<close>: the duplicate check, then configuration, then the new pair.\<close>

fun addMotor_tracked :: "int \<Rightarrow> (8 word \<times> bool) list \<Rightarrow> bool" where
  "addMotor_tracked port [] = False"
| "addMotor_tracked port (pair # rest) =
     (if \<bar>sint (fst pair)\<bar> = \<bar>port\<bar> then True else addMotor_tracked port rest)"

definition addMotor :: "int \<Rightarrow> MotorGroup \<Rightarrow> hardware \<Rightarrow> int \<times> MotorGroup \<times> hardware" where
  "addMotor port g h =
     (if addMotor_tracked port (m_motors g) then (INT_MAX, g, h\<lparr>errno := EEXIST\<rparr>)
      else (case configureMotor port (m_motors g) h of
              (result, h') \<Rightarrow>
                (result,
                 g\<lparr>m_motors := m_motors g @ [(word_of_int port, result = 0)]\<rparr>, h')))"

text \<open>
  \<^verbatim>\<open>removeMotor(int port)\<close>: the iterator stays where it is after an \<^verbatim>\<open>erase\<close> and moves on
  otherwise, so every matching pair goes and the others keep their order.
\<close>

fun removeMotor_loop :: "int \<Rightarrow> (8 word \<times> bool) list \<Rightarrow> (8 word \<times> bool) list" where
  "removeMotor_loop port [] = []"
| "removeMotor_loop port (pair # rest) =
     (if \<bar>sint (fst pair)\<bar> = \<bar>port\<bar> then removeMotor_loop port rest
      else pair # removeMotor_loop port rest)"

definition removeMotor :: "int \<Rightarrow> MotorGroup \<Rightarrow> MotorGroup" where
  "removeMotor port g = g\<lparr>m_motors := removeMotor_loop port (m_motors g)\<rparr>"

section \<open>MotorGroup: commands and feedback\<close>

text \<open>
  Each command fetches the working set with \<^verbatim>\<open>getMotors\<close>, sends the command to every member
  in order and keeps \<^verbatim>\<open>success\<close>, which one return code of \<open>0\<close> sets.
\<close>

fun move_loop :: "int list \<Rightarrow> real \<Rightarrow> hardware \<Rightarrow> bool \<Rightarrow> bool \<times> hardware" where
  "move_loop [] percent h success = (success, h)"
| "move_loop (motor # motors) percent h success =
     (case Motor_move motor percent h of
        (result, h') \<Rightarrow> move_loop motors percent h' (if result = 0 then True else success))"

definition move :: "real \<Rightarrow> MotorGroup \<Rightarrow> hardware \<Rightarrow> int \<times> MotorGroup \<times> hardware" where
  "move percent g h =
     (case getMotors g h of
        (motors, g1, h1) \<Rightarrow>
          (case move_loop motors percent h1 False of
             (success, h2) \<Rightarrow> ((if success then 0 else INT_MAX), g1, h2)))"

fun moveVelocity_loop ::
  "int list \<Rightarrow> real \<Rightarrow> real \<Rightarrow> hardware \<Rightarrow> bool \<Rightarrow> bool \<times> hardware" where
  "moveVelocity_loop [] velocity outputVelocity h success = (success, h)"
| "moveVelocity_loop (motor # motors) velocity outputVelocity h success =
     (if cartridge h motor = Cartridge_INVALID
      then moveVelocity_loop motors velocity outputVelocity h success
      else (let ratio = real_of_int (Cartridge_int (cartridge h motor)) / outputVelocity
            in case Motor_moveVelocity motor (velocity * ratio) h of
                 (result, h') \<Rightarrow>
                   moveVelocity_loop motors velocity outputVelocity h'
                     (if result = 0 then True else success)))"

definition moveVelocity :: "real \<Rightarrow> MotorGroup \<Rightarrow> hardware \<Rightarrow> int \<times> MotorGroup \<times> hardware" where
  "moveVelocity velocity g h =
     (case getMotors g h of
        (motors, g1, h1) \<Rightarrow>
          (case moveVelocity_loop motors velocity (m_outputVelocity g1) h1 False of
             (success, h2) \<Rightarrow> ((if success then 0 else INT_MAX), g1, h2)))"

fun brake_loop :: "int list \<Rightarrow> hardware \<Rightarrow> bool \<Rightarrow> bool \<times> hardware" where
  "brake_loop [] h success = (success, h)"
| "brake_loop (motor # motors) h success =
     (case Motor_brake motor h of
        (result, h') \<Rightarrow> brake_loop motors h' (if result = 0 then True else success))"

definition brake :: "MotorGroup \<Rightarrow> hardware \<Rightarrow> int \<times> MotorGroup \<times> hardware" where
  "brake g h =
     (case getMotors g h of
        (motors, g1, h1) \<Rightarrow>
          (case brake_loop motors h1 False of
             (success, h2) \<Rightarrow> ((if success then 0 else INT_MAX), g1, h2)))"

fun setBrakeMode_loop :: "int list \<Rightarrow> BrakeMode \<Rightarrow> hardware \<Rightarrow> bool \<Rightarrow> bool \<times> hardware" where
  "setBrakeMode_loop [] mode h success = (success, h)"
| "setBrakeMode_loop (motor # motors) mode h success =
     (case Motor_setBrakeMode motor mode h of
        (result, h') \<Rightarrow> setBrakeMode_loop motors mode h' (if result = 0 then True else success))"

definition setBrakeMode :: "BrakeMode \<Rightarrow> MotorGroup \<Rightarrow> hardware \<Rightarrow> int \<times> MotorGroup \<times> hardware" where
  "setBrakeMode mode g h =
     (case getMotors g h of
        (motors, g1, h1) \<Rightarrow>
          (case setBrakeMode_loop motors mode h1 False of
             (success, h2) \<Rightarrow> ((if success then 0 else INT_MAX), g1, h2)))"

text \<open>\<^verbatim>\<open>isConnected\<close>: \<^verbatim>\<open>return true\<close> (the \<^verbatim>\<open>int\<close> 1) at the first member that answers 1.\<close>

fun isConnected_loop :: "int list \<Rightarrow> hardware \<Rightarrow> int" where
  "isConnected_loop [] h = 0"
| "isConnected_loop (motor # motors) h =
     (if connected h motor = 1 then 1 else isConnected_loop motors h)"

definition isConnected :: "MotorGroup \<Rightarrow> hardware \<Rightarrow> int \<times> MotorGroup \<times> hardware" where
  "isConnected g h =
     (case getMotors g h of (motors, g1, h1) \<Rightarrow> (isConnected_loop motors h1, g1, h1))"

text \<open>
  \<^verbatim>\<open>getSize\<close>: a working set of its own, and in it the members whose \<^verbatim>\<open>isConnected()\<close> is
  not 0.
\<close>

fun getSize_loop :: "int list \<Rightarrow> hardware \<Rightarrow> int \<Rightarrow> int" where
  "getSize_loop [] h sz = sz"
| "getSize_loop (motor # motors) h sz =
     getSize_loop motors h (if connected h motor \<noteq> 0 then sz + 1 else sz)"

definition getSize :: "MotorGroup \<Rightarrow> hardware \<Rightarrow> int \<times> MotorGroup \<times> hardware" where
  "getSize g h =
     (case getMotors g h of (motors, g1, h1) \<Rightarrow> (getSize_loop motors h1 0, g1, h1))"

text \<open>
  \<^verbatim>\<open>getAngle\<close>.  The loop adds each valid reading times \<^verbatim>\<open>m_outputVelocity / from_rpm(cartridge)\<close>
  and counts the members whose angle or cartridge read failed.
\<close>

fun getAngle_loop :: "int list \<Rightarrow> real \<Rightarrow> hardware \<Rightarrow> Angle \<Rightarrow> int \<Rightarrow> Angle \<times> int" where
  "getAngle_loop [] outputVelocity h acc errors = (acc, errors)"
| "getAngle_loop (motor # motors) outputVelocity h acc errors =
     (let result = angle h motor
      in if result = INFINITY then getAngle_loop motors outputVelocity h acc (errors + 1)
         else if cartridge h motor = Cartridge_INVALID
              then getAngle_loop motors outputVelocity h acc (errors + 1)
         else (let ratio = outputVelocity / real_of_int (Cartridge_int (cartridge h motor))
               in getAngle_loop motors outputVelocity h
                    (Angle_plus acc (Angle_times result ratio)) errors))"

text \<open>
  The state of \<^verbatim>\<open>getAngle\<close> when its loop is over: the working set, the sum, the error count,
  and the group and the hardware as \<^verbatim>\<open>getMotors\<close> left them.
\<close>

definition getAngle_sum ::
  "MotorGroup \<Rightarrow> hardware \<Rightarrow> int list \<times> Angle \<times> int \<times> MotorGroup \<times> hardware" where
  "getAngle_sum g h =
     (case getMotors g h of
        (motors, g1, h1) \<Rightarrow>
          (case getAngle_loop motors (m_outputVelocity g1) h1 (StDeg 0) 0 of
             (acc, errors) \<Rightarrow> (motors, acc, errors, g1, h1)))"

text \<open>
  The divisor of the last line, \<^verbatim>\<open>getSize() - errors\<close>, where that line is reached: \<open>None\<close>
  stands for the early return.
\<close>

definition getAngle_divisor :: "MotorGroup \<Rightarrow> hardware \<Rightarrow> int option" where
  "getAngle_divisor g h =
     (case getAngle_sum g h of
        (motors, acc, errors, g1, h1) \<Rightarrow>
          if errors = int (length motors) then None
          else Some (fst (getSize g1 h1) - errors))"

definition getAngle :: "MotorGroup \<Rightarrow> hardware \<Rightarrow> Angle \<times> MotorGroup \<times> hardware" where
  "getAngle g h =
     (case getAngle_sum g h of
        (motors, acc, errors, g1, h1) \<Rightarrow>
          if errors = int (length motors) then (INFINITY, g1, h1)
          else (case getSize g1 h1 of
                  (sz, g2, h2) \<Rightarrow> (Angle_divide acc (sz - errors), g2, h2)))"

section \<open>Auxiliary notions\<close>

text \<open>
  What no command of the driver model changes: the two connectivity probes, the cartridges,
  the return codes and \<open>errno\<close>.  Only \<open>angle\<close>, \<open>brakeMode\<close> and \<open>issued\<close> move.
\<close>

definition same_responses :: "hardware \<Rightarrow> hardware \<Rightarrow> bool" where
  "same_responses h h' \<longleftrightarrow>
     installed h' = installed h \<and> connected h' = connected h \<and>
     cartridge h' = cartridge h \<and> r_move h' = r_move h \<and>
     r_moveVelocity h' = r_moveVelocity h \<and> r_brake h' = r_brake h \<and>
     r_setBrakeMode h' = r_setBrakeMode h \<and> r_setAngle h' = r_setAngle h \<and>
     errno h' = errno h"

text \<open>The membership invariant of the data model: no absolute port occurs twice.\<close>

definition distinct_ports :: "(8 word \<times> bool) list \<Rightarrow> bool" where
  "distinct_ports ms = distinct (map (\<lambda>pair. \<bar>sint (fst pair)\<bar>) ms)"

definition int8_range :: "int \<Rightarrow> bool" where
  "int8_range port \<longleftrightarrow> - 128 \<le> port \<and> port \<le> 127"

text \<open>
  The groups that a program can hold: built by a constructor from \<open>motors\<close>, then changed by
  \<^verbatim>\<open>addMotor\<close> (on any hardware, with a port that \<open>accepted\<close> admits) and \<^verbatim>\<open>removeMotor\<close>.
\<close>

inductive reachable :: "(int \<Rightarrow> bool) \<Rightarrow> 8 word list \<Rightarrow> real \<Rightarrow> MotorGroup \<Rightarrow> bool"
  for accepted :: "int \<Rightarrow> bool" and motors :: "8 word list" and outputVelocity :: real where
  constructed: "reachable accepted motors outputVelocity (MotorGroup_new motors outputVelocity)"
| added: "reachable accepted motors outputVelocity g \<Longrightarrow> accepted port
           \<Longrightarrow> reachable accepted motors outputVelocity (fst (snd (addMotor port g h)))"
| removed: "reachable accepted motors outputVelocity g
           \<Longrightarrow> reachable accepted motors outputVelocity (removeMotor port g)"

text \<open>How many members of a working set answer \<open>0\<close>, success, to a command.\<close>

definition successes :: "(int \<Rightarrow> int) \<Rightarrow> int list \<Rightarrow> nat" where
  "successes result motors = length (filter (\<lambda>m. result m = 0) motors)"

text \<open>The finite part of an angle, for stating sums.\<close>

fun to_stDeg :: "Angle \<Rightarrow> real" where
  "to_stDeg (StDeg a) = a"
| "to_stDeg _ = 0"

text \<open>
  The driver's contract for \<^verbatim>\<open>Motor::getAngle\<close>: an angle, or \<^verbatim>\<open>INFINITY\<close> on error.
\<close>

fun reading_ok :: "Angle \<Rightarrow> bool" where
  "reading_ok (StDeg a) = True"
| "reading_ok INFINITY = True"
| "reading_ok _ = False"

text \<open>
  The members of a working set that the averaging loops count: the angle read is not the
  error sentinel and the cartridge is valid.
\<close>

definition valid_members :: "hardware \<Rightarrow> int list \<Rightarrow> int list" where
  "valid_members h motors =
     filter (\<lambda>m. angle h m \<noteq> INFINITY \<and> cartridge h m \<noteq> Cartridge_INVALID) motors"

text \<open>A member's reading in the frame of the output shaft, as \<^verbatim>\<open>getAngle\<close> converts it.\<close>

definition corrected_angle :: "real \<Rightarrow> hardware \<Rightarrow> int \<Rightarrow> real" where
  "corrected_angle outputVelocity h m =
     to_stDeg (angle h m) * (outputVelocity / real_of_int (Cartridge_int (cartridge h m)))"

section \<open>Example robots\<close>

text \<open>
  Two motors, on ports 1 and 2, both plugged in and answering every command: port 1 with
  the 100 rpm cartridge at 10 degrees, port 2 with the 200 rpm cartridge at 40 degrees.
  Nothing answers on any other port.
\<close>

definition robot :: hardware where
  "robot =
     \<lparr>installed = (\<lambda>p. p = 1 \<or> p = 2),
      connected = (\<lambda>p. if p = 1 \<or> p = 2 then 1 else 0),
      angle = (\<lambda>p. if p = 1 then StDeg 10 else if p = 2 then StDeg 40 else INFINITY),
      cartridge = (\<lambda>p. if p = 1 then RED else if p = 2 then GREEN else Cartridge_INVALID),
      brakeMode = (\<lambda>p. if p = 1 then COAST else if p = 2 then HOLD else BrakeMode_INVALID),
      r_move = (\<lambda>p percent. if p = 1 \<or> p = 2 then 0 else INT_MAX),
      r_moveVelocity = (\<lambda>p velocity. if p = 1 \<or> p = 2 then 0 else INT_MAX),
      r_brake = (\<lambda>p. if p = 1 \<or> p = 2 then 0 else INT_MAX),
      r_setBrakeMode = (\<lambda>p mode. if p = 1 \<or> p = 2 then 0 else INT_MAX),
      r_setAngle = (\<lambda>p a. if p = 1 \<or> p = 2 then 0 else INT_MAX),
      issued = [],
      errno = 0\<rparr>"

text \<open>
  A group on ports 3 and 4 (holding and coasting), beside a motor on port 1 that belongs to
  no group and brakes.
\<close>

definition robot34 :: hardware where
  "robot34 =
     \<lparr>installed = (\<lambda>p. p = 1 \<or> p = 3 \<or> p = 4),
      connected = (\<lambda>p. if p = 1 \<or> p = 3 \<or> p = 4 then 1 else 0),
      angle = (\<lambda>p. if p = 1 \<or> p = 3 \<or> p = 4 then StDeg 90 else INFINITY),
      cartridge = (\<lambda>p. if p = 1 \<or> p = 3 \<or> p = 4 then GREEN else Cartridge_INVALID),
      brakeMode = (\<lambda>p. if p = 1 then BRAKE else if p = 3 then HOLD
                        else if p = 4 then COAST else BrakeMode_INVALID),
      r_move = (\<lambda>p percent. 0),
      r_moveVelocity = (\<lambda>p velocity. 0),
      r_brake = (\<lambda>p. 0),
      r_setBrakeMode = (\<lambda>p mode. 0),
      r_setAngle = (\<lambda>p a. 0),
      issued = [],
      errno = 0\<rparr>"

section \<open>What the commands leave alone\<close>

lemma same_responses_refl [simp]: "same_responses h h"
  by (simp add: same_responses_def)

lemma same_responses_trans:
  "same_responses h h1 \<Longrightarrow> same_responses h1 h2 \<Longrightarrow> same_responses h h2"
  by (simp add: same_responses_def)

lemma Motor_setBrakeMode_responses: "same_responses h (snd (Motor_setBrakeMode p mode h))"
  by (simp add: same_responses_def Motor_setBrakeMode_def)

lemma Motor_setAngle_responses: "same_responses h (snd (Motor_setAngle p a h))"
  by (simp add: same_responses_def Motor_setAngle_def)

lemma configureMotor_brakeMode_responses:
  "same_responses h (snd (configureMotor_brakeMode ms h))"
proof (induction ms)
  case Nil
  show ?case by simp
next
  case (Cons pair rest)
  define m :: int where "m = (if snd pair then 1 else 0)"
  show ?case
  proof (cases "brakeMode h m = BrakeMode_INVALID")
    case True
    then show ?thesis using Cons by (simp add: m_def)
  next
    case False
    then have "snd (configureMotor_brakeMode (pair # rest) h)
        = snd (Motor_setBrakeMode m (brakeMode h m) h)"
      by (simp add: m_def split: prod.splits)
    then show ?thesis by (simp add: Motor_setBrakeMode_responses)
  qed
qed

lemma configureMotor_responses:
  assumes "configureMotor port ms h = (r, h')"
  shows "same_responses h h'"
proof -
  obtain s h1 where b: "configureMotor_brakeMode ms h = (s, h1)"
    by (cases "configureMotor_brakeMode ms h")
  have 1: "same_responses h h1"
    using configureMotor_brakeMode_responses [of h ms] b by simp
  have "h' = snd (Motor_setAngle (int8 port) (configureMotor_angle port ms h1) h1)"
    using assms by (auto simp: configureMotor_def b Let_def split: prod.splits if_splits)
  then show ?thesis
    using same_responses_trans [OF 1 Motor_setAngle_responses] by simp
qed

lemma getMotors_loop_responses:
  "same_responses h (fst (snd (getMotors_loop done todo h motors)))"
proof (induction todo arbitrary: "done" h motors)
  case Nil
  show ?case by simp
next
  case (Cons pair rest)
  show ?case
  proof (cases "installed h (sint (fst pair)) \<and> \<not> snd pair")
    case False
    then show ?thesis using Cons.IH by auto
  next
    case True
    obtain r h' where c: "configureMotor (sint (fst pair)) (done @ pair # rest) h = (r, h')"
      by (cases "configureMotor (sint (fst pair)) (done @ pair # rest) h")
    have "same_responses h (fst (snd (getMotors_loop D rest h' M)))" for D M
      using same_responses_trans [OF configureMotor_responses [OF c] Cons.IH] .
    then show ?thesis using True by (simp add: c)
  qed
qed

lemma getMotors_responses: "same_responses h (snd (snd (getMotors g h)))"
  using getMotors_loop_responses [of h "[]" "m_motors g" "[]"]
  by (cases "getMotors_loop [] (m_motors g) h []") (simp add: getMotors_def)

lemma getMotors_outputVelocity: "m_outputVelocity (fst (snd (getMotors g h))) = m_outputVelocity g"
  by (cases "getMotors_loop [] (m_motors g) h []") (simp add: getMotors_def)

section \<open>Commands: success of one member is success of the group\<close>

lemma move_loop_success:
  "fst (move_loop motors percent h success) \<longleftrightarrow>
     success \<or> (\<exists>m \<in> set motors. r_move h m percent = 0)"
  by (induction motors arbitrary: h success) (auto simp: Motor_move_def)

lemma brake_loop_success:
  "fst (brake_loop motors h success) \<longleftrightarrow> success \<or> (\<exists>m \<in> set motors. r_brake h m = 0)"
  by (induction motors arbitrary: h success) (auto simp: Motor_brake_def)

lemma setBrakeMode_loop_success:
  "fst (setBrakeMode_loop motors mode h success) \<longleftrightarrow>
     success \<or> (\<exists>m \<in> set motors. r_setBrakeMode h m mode = 0)"
  by (induction motors arbitrary: h success) (auto simp: Motor_setBrakeMode_def)

lemma successes_ge1:
  "Suc 0 \<le> successes result motors \<longleftrightarrow> (\<exists>m \<in> set motors. result m = 0)"
  by (induction motors) (auto simp: successes_def)

text \<open>
  Claim C5.  Let the working set of the call be \<open>fst (getMotors g h)\<close>, of \<open>N\<close> members, and
  let \<open>M\<close> of them answer \<open>0\<close> to the command.  Then \<^verbatim>\<open>move\<close>, \<^verbatim>\<open>brake\<close> and \<^verbatim>\<open>setBrakeMode\<close> each
  return \<open>0\<close> when \<open>M \<ge> 1\<close> and \<^verbatim>\<open>INT_MAX\<close> otherwise.
\<close>

theorem commands_succeed_iff_one_member:
  "fst (move percent g h) =
     (if 1 \<le> successes (\<lambda>m. r_move h m percent) (fst (getMotors g h)) then 0 else INT_MAX)
   \<and> fst (brake g h) =
     (if 1 \<le> successes (r_brake h) (fst (getMotors g h)) then 0 else INT_MAX)
   \<and> fst (setBrakeMode mode g h) =
     (if 1 \<le> successes (\<lambda>m. r_setBrakeMode h m mode) (fst (getMotors g h))
      then 0 else INT_MAX)"
proof -
  obtain motors g1 h1 where gm: "getMotors g h = (motors, g1, h1)"
    by (cases "getMotors g h") auto
  have same: "r_move h1 = r_move h" "r_brake h1 = r_brake h"
    "r_setBrakeMode h1 = r_setBrakeMode h"
    using getMotors_responses [of h g] gm by (simp_all add: same_responses_def)
  have 1: "fst (move percent g h)
      = (if fst (move_loop motors percent h1 False) then 0 else INT_MAX)"
    by (simp add: move_def gm split: prod.splits)
  have 2: "fst (brake g h) = (if fst (brake_loop motors h1 False) then 0 else INT_MAX)"
    by (simp add: brake_def gm split: prod.splits)
  have 3: "fst (setBrakeMode mode g h)
      = (if fst (setBrakeMode_loop motors mode h1 False) then 0 else INT_MAX)"
    by (simp add: setBrakeMode_def gm split: prod.splits)
  show ?thesis
    by (simp add: 1 2 3 gm same successes_ge1 move_loop_success
        brake_loop_success setBrakeMode_loop_success)
qed

theorem commands_succeed_iff_one_member_witness:
  "fst (move (1/2) (MotorGroup_new [1, 2] 100)
          (robot\<lparr>r_move := (\<lambda>p percent. if p = 2 then 0 else INT_MAX)\<rparr>)) = 0
   \<and> fst (brake (MotorGroup_new [1, 2] 100) (robot\<lparr>r_brake := (\<lambda>p. INT_MAX)\<rparr>)) = INT_MAX
   \<and> fst (setBrakeMode HOLD (MotorGroup_new [1, 2] 100) robot) = 0"
  using commands_succeed_iff_one_member [of "1/2" "MotorGroup_new [1, 2] 100"
      "robot\<lparr>r_move := (\<lambda>p percent. if p = 2 then 0 else INT_MAX)\<rparr>"]
    commands_succeed_iff_one_member [of _ "MotorGroup_new [1, 2] 100"
      "robot\<lparr>r_brake := (\<lambda>p. INT_MAX)\<rparr>"]
    commands_succeed_iff_one_member [of _ "MotorGroup_new [1, 2] 100" robot HOLD]
  by (simp add: MotorGroup_new_def getMotors_def robot_def successes_def INT_MAX_def)

section \<open>isConnected\<close>

lemma isConnected_loop_eq:
  "isConnected_loop motors h = (if \<exists>m \<in> set motors. connected h m = 1 then 1 else 0)"
  by (induction motors) auto

text \<open>
  Claim C10.  \<^verbatim>\<open>MotorGroup::isConnected\<close> returns 1 when some member of the working set
  answers 1 to \<^verbatim>\<open>Motor::isConnected\<close>, and 0 otherwise; so it returns 0 or 1 and never the
  error value that a single motor's probe can give.
\<close>

theorem isConnected_result:
  "fst (isConnected g h) =
     (if \<exists>m \<in> set (fst (getMotors g h)). connected h m = 1 then 1 else 0)"
proof -
  obtain motors g1 h1 where gm: "getMotors g h = (motors, g1, h1)"
    by (cases "getMotors g h") auto
  have "connected h1 = connected h"
    using getMotors_responses [of h g] gm by (simp add: same_responses_def)
  then show ?thesis
    by (simp add: isConnected_def gm isConnected_loop_eq)
qed

theorem isConnected_result_witness:
  "fst (isConnected (MotorGroup_new [1, 2] 100) robot) = 1"
  using isConnected_result [of "MotorGroup_new [1, 2] 100" robot]
  by (auto simp: MotorGroup_new_def getMotors_def robot_def)

section \<open>addMotor and removeMotor\<close>

lemma addMotor_tracked_iff:
  "addMotor_tracked port ms \<longleftrightarrow> (\<exists>pair \<in> set ms. \<bar>sint (fst pair)\<bar> = \<bar>port\<bar>)"
  by (induction ms) auto

text \<open>
  Claim C8.  When the absolute value of \<open>port\<close> is that of a port the group already tracks,
  \<^verbatim>\<open>addMotor(port)\<close> returns \<^verbatim>\<open>INT_MAX\<close> with \<^verbatim>\<open>errno = EEXIST\<close>, the group is as it was (no
  pair added, no flag changed) and so is the hardware: no command was sent, so no
  reconfiguration ran.
\<close>

theorem addMotor_duplicate:
  assumes "(p, flag) \<in> set (m_motors g)" and "\<bar>sint p\<bar> = \<bar>port\<bar>"
  shows "addMotor port g h = (INT_MAX, g, h\<lparr>errno := EEXIST\<rparr>)"
proof -
  have "addMotor_tracked port (m_motors g)"
    using assms by (force simp: addMotor_tracked_iff)
  then show ?thesis by (simp add: addMotor_def)
qed

theorem addMotor_duplicate_witness:
  "addMotor (- 2) (MotorGroup_new [1, 2] 100) robot
     = (INT_MAX, MotorGroup_new [1, 2] 100, robot\<lparr>errno := EEXIST\<rparr>)"
  using addMotor_duplicate [of 2 True "MotorGroup_new [1, 2] 100" "- 2" robot]
  by (simp add: MotorGroup_new_def)

lemma removeMotor_loop_filter:
  "removeMotor_loop port ms = filter (\<lambda>pair. \<bar>sint (fst pair)\<bar> \<noteq> \<bar>port\<bar>) ms"
  by (induction ms) auto

lemma sint_int8_range: "int8_range port \<Longrightarrow> sint (word_of_int port :: 8 word) = port"
  by (simp add: int8_range_def int_word_sint)

lemma addMotor_distinct:
  assumes "distinct_ports (m_motors g)" and "int8_range port"
  shows "distinct_ports (m_motors (fst (snd (addMotor port g h))))"
proof (cases "addMotor_tracked port (m_motors g)")
  case True
  then show ?thesis using assms by (simp add: addMotor_def)
next
  case False
  then have "\<bar>port\<bar> \<notin> (\<lambda>pair. \<bar>sint (fst pair)\<bar>) ` set (m_motors g)"
    by (auto simp: addMotor_tracked_iff)
  then show ?thesis
    using assms False
    by (simp add: addMotor_def distinct_ports_def sint_int8_range split: prod.splits)
qed

text \<open>
  Claim C9, as amended.  Start from a constructor whose motors have pairwise different
  absolute ports, and let every port given to \<^verbatim>\<open>addMotor\<close> fit \<^verbatim>\<open>int8_t\<close>.  Then after any
  sequence of \<^verbatim>\<open>addMotor\<close> and \<^verbatim>\<open>removeMotor\<close> calls no absolute port occurs twice in
  \<^verbatim>\<open>m_motors\<close>.
\<close>

theorem membership_distinct:
  assumes "reachable int8_range motors outputVelocity g"
    and "distinct (map (\<lambda>p. \<bar>sint p\<bar>) motors)"
  shows "distinct_ports (m_motors g)"
  using assms
proof (induction rule: reachable.induct)
  case constructed
  then show ?case by (simp add: MotorGroup_new_def distinct_ports_def comp_def)
next
  case (added g port h)
  then show ?case by (simp add: addMotor_distinct)
next
  case (removed g port)
  then show ?case
    by (simp add: removeMotor_def distinct_ports_def removeMotor_loop_filter distinct_map_filter)
qed

text \<open>
  The claim as stated fails at construction: a constructor copies its argument without
  looking for duplicates, so the motor list \<open>[1, 1]\<close> gives a group that tracks port 1 twice.
\<close>

theorem membership_distinct_counterexample:
  "reachable (\<lambda>port. True) [1, 1] 100 (MotorGroup_new [1, 1] 100)
   \<and> \<not> distinct_ports (m_motors (MotorGroup_new [1, 1] 100))"
  using reachable.constructed [of "\<lambda>port. True" "[1, 1]" 100]
  by (simp add: MotorGroup_new_def distinct_ports_def)

theorem membership_distinct_witness:
  "distinct_ports (m_motors (removeMotor 1 (fst (snd (addMotor 2 (MotorGroup_new [1] 100) robot)))))"
proof -
  have "reachable int8_range [1] 100
      (removeMotor 1 (fst (snd (addMotor 2 (MotorGroup_new [1] 100) robot))))"
    by (intro reachable.removed reachable.added reachable.constructed) (simp add: int8_range_def)
  then show ?thesis
    using membership_distinct [of "[1]" 100] by simp
qed

text \<open>
  Outside \<^verbatim>\<open>int8_t\<close> the duplicate check and the stored pair disagree: 257 is compared as 257
  and stored as 1.
\<close>

lemma addMotor_narrows_port:
  "m_motors (fst (snd (addMotor 257 (MotorGroup_new [1] 100) robot))) = [(1, True), (1, True)]"
  by (simp add: addMotor_def MotorGroup_new_def configureMotor_def configureMotor_angle_def
      Motor_setAngle_def Motor_setBrakeMode_def robot_def int8_def INT_MAX_def Let_def)

section \<open>moveVelocity\<close>

lemma moveVelocity_loop_issued:
  "issued (snd (moveVelocity_loop motors v ov h s)) =
     issued h @ map (\<lambda>m. MoveVelocity m (v * (real_of_int (Cartridge_int (cartridge h m)) / ov)))
       (filter (\<lambda>m. cartridge h m \<noteq> Cartridge_INVALID) motors)"
  by (induction motors arbitrary: h s) (auto simp: Motor_moveVelocity_def Let_def)

text \<open>
  Claim C6.  \<^verbatim>\<open>moveVelocity(v)\<close> sends, after whatever \<^verbatim>\<open>getMotors\<close> sent, one
  \<^verbatim>\<open>moveVelocity\<close> command to each member of the working set whose cartridge is valid, in
  order, with the velocity \<open>v * (R / O)\<close>, where \<open>R\<close> is the nominal speed of that member's
  cartridge and \<open>O\<close> the output velocity of the group; a member whose cartridge reads
  \<^verbatim>\<open>INVALID\<close> gets no command.  \<open>R / O\<close> is a division of doubles in the source, a real
  number only for \<open>O \<noteq> 0\<close>.
\<close>

theorem moveVelocity_commands:
  assumes "m_outputVelocity g \<noteq> 0"
  shows "issued (snd (snd (moveVelocity v g h))) =
     issued (snd (snd (getMotors g h))) @
       map (\<lambda>m. MoveVelocity m (v * (real_of_int (Cartridge_int (cartridge h m)) / m_outputVelocity g)))
         (filter (\<lambda>m. cartridge h m \<noteq> Cartridge_INVALID) (fst (getMotors g h)))"
proof -
  obtain motors g1 h1 where gm: "getMotors g h = (motors, g1, h1)"
    by (cases "getMotors g h") auto
  have c: "cartridge h1 = cartridge h"
    using getMotors_responses [of h g] gm by (simp add: same_responses_def)
  have ov: "m_outputVelocity g1 = m_outputVelocity g"
    using getMotors_outputVelocity [of g h] gm by simp
  have "snd (snd (moveVelocity v g h)) = snd (moveVelocity_loop motors v (m_outputVelocity g) h1 False)"
    by (simp add: moveVelocity_def gm ov split: prod.splits)
  then show ?thesis
    by (simp add: gm moveVelocity_loop_issued c)
qed

theorem moveVelocity_commands_witness:
  "issued (snd (snd (moveVelocity 50 (MotorGroup_new [1, 2] 100) robot)))
     = [MoveVelocity 1 50, MoveVelocity 2 100]"
  using moveVelocity_commands [of "MotorGroup_new [1, 2] 100" 50 robot]
  by (simp add: MotorGroup_new_def getMotors_def robot_def)

section \<open>getMotors: the reconnection edge\<close>

lemma getMotors_loop_acc:
  "getMotors_loop D todo h M =
     (case getMotors_loop D todo h [] of (ms, h', later) \<Rightarrow> (ms, h', M @ later))"
proof (induction todo arbitrary: D h M)
  case Nil
  show ?case by simp
next
  case (Cons pair rest)
  obtain p b where pair: "pair = (p, b)" by (cases pair)
  have shift: "getMotors_loop D' rest h' (M @ N) =
      (case getMotors_loop D' rest h' N of (ms, h'', later) \<Rightarrow> (ms, h'', M @ later))"
    for D' h' N
    using Cons.IH [of D' h' "M @ N"] Cons.IH [of D' h' N]
    by (cases "getMotors_loop D' rest h' []") simp
  consider (absent) "\<not> installed h (sint p)"
    | (present) "installed h (sint p)" "b"
    | (edge) "installed h (sint p)" "\<not> b"
    by blast
  then show ?case
  proof cases
    case absent
    then show ?thesis using shift [of _ h "[]"] by (simp add: pair)
  next
    case present
    then show ?thesis using shift [of _ h "[sint p]"] by (simp add: pair)
  next
    case edge
    obtain r h' where cm: "configureMotor (sint p) (D @ (p, False) # rest) h = (r, h')"
      by (cases "configureMotor (sint p) (D @ (p, False) # rest) h")
    show ?thesis
      using edge cm shift [of _ h' "[]"] shift [of _ h' "[sint p]"]
      by (cases "r = 0") (simp_all add: pair)
  qed
qed

lemma getMotors_loop_flags:
  "\<exists>tail. fst (getMotors_loop D todo h M) = D @ tail \<and> map fst tail = map fst todo"
proof (induction todo arbitrary: D h M)
  case Nil
  show ?case by simp
next
  case (Cons pair rest)
  obtain p b where pair: "pair = (p, b)" by (cases pair)
  have step: "\<exists>tail. fst (getMotors_loop (D @ [(p, b')]) rest h' M') = D @ tail
      \<and> map fst tail = map fst (pair # rest)" for b' h' M'
  proof -
    obtain tail where "fst (getMotors_loop (D @ [(p, b')]) rest h' M') = (D @ [(p, b')]) @ tail"
      and "map fst tail = map fst rest"
      using Cons.IH [of "D @ [(p, b')]" h' M'] by blast
    then show ?thesis by (intro exI [of _ "(p, b') # tail"]) (simp add: pair)
  qed
  consider (absent) "\<not> installed h (sint p)"
    | (present) "installed h (sint p)" "b"
    | (edge) "installed h (sint p)" "\<not> b"
    by blast
  then show ?case
  proof cases
    case absent
    then show ?thesis using step [of False h M] by (simp add: pair)
  next
    case present
    then show ?thesis using step [of True h "M @ [sint p]"] by (simp add: pair)
  next
    case edge
    obtain r h' where cm: "configureMotor (sint p) (D @ (p, False) # rest) h = (r, h')"
      by (cases "configureMotor (sint p) (D @ (p, False) # rest) h")
    show ?thesis
      using edge cm step [of False h' M] step [of True h' "M @ [sint p]"]
      by (cases "r = 0") (simp_all add: pair)
  qed
qed

text \<open>
  What \<^verbatim>\<open>configureMotor\<close> returns: \<open>0\<close> when \<^verbatim>\<open>setAngle\<close> answers \<^verbatim>\<open>INT_MAX\<close>, whatever went
  wrong before, and otherwise \<open>0\<close> or \<open>1\<close> as \<^verbatim>\<open>success\<close> says.
\<close>

lemma configureMotor_returns:
  "fst (configureMotor port ms h) =
     (let h1 = snd (configureMotor_brakeMode ms h)
      in if r_setAngle h (int8 port) (configureMotor_angle port ms h1) = INT_MAX then 0
         else if fst (configureMotor_brakeMode ms h)
                 \<and> cartridge h (int8 port) \<noteq> Cartridge_INVALID then 0
         else 1)"
proof -
  obtain s h1 where b: "configureMotor_brakeMode ms h = (s, h1)"
    by (cases "configureMotor_brakeMode ms h")
  have "same_responses h h1"
    using configureMotor_brakeMode_responses [of h ms] b by simp
  then have "r_setAngle h1 = r_setAngle h" "cartridge h1 = cartridge h"
    by (simp_all add: same_responses_def)
  then show ?thesis
    by (simp add: configureMotor_def b Let_def Motor_setAngle_def)
qed

text \<open>
  Claim C4, as amended.  Let the loop of \<^verbatim>\<open>getMotors\<close> reach a pair \<open>(p, False)\<close> whose motor
  is installed: \<open>done\<close> are the pairs before it as they now stand, \<open>rest\<close> the pairs after it,
  \<open>motors\<close> the working set so far.  Then \<^verbatim>\<open>configureMotor\<close> runs on that port, on the whole
  list, and the loop goes on from the hardware it leaves.  With \<open>r\<close> its return value, the
  member joins the working set exactly when \<open>r = 0\<close>, and its flag in the list that the call
  leaves is \<open>r = 0\<close> as well: set when the configuration succeeded, still unset when it
  failed.
\<close>

theorem getMotors_reconnection_edge:
  assumes "installed h (sint p)"
    and "configureMotor (sint p) (done @ (p, False) # rest) h = (r, h')"
  shows "getMotors_loop done ((p, False) # rest) h motors
      = getMotors_loop (done @ [(p, r = 0)]) rest h' (if r = 0 then motors @ [sint p] else motors)
    \<and> fst (getMotors_loop done ((p, False) # rest) h motors) ! length done = (p, r = 0)
    \<and> snd (snd (getMotors_loop done ((p, False) # rest) h motors))
      = motors @ (if r = 0 then [sint p] else [])
          @ snd (snd (getMotors_loop (done @ [(p, r = 0)]) rest h' []))"
proof -
  have 1: "getMotors_loop done ((p, False) # rest) h motors
      = getMotors_loop (done @ [(p, r = 0)]) rest h' (if r = 0 then motors @ [sint p] else motors)"
    using assms by simp
  obtain tail where "fst (getMotors_loop (done @ [(p, r = 0)]) rest h'
      (if r = 0 then motors @ [sint p] else motors)) = (done @ [(p, r = 0)]) @ tail"
    using getMotors_loop_flags by blast
  then have "fst (getMotors_loop (done @ [(p, r = 0)]) rest h'
      (if r = 0 then motors @ [sint p] else motors)) ! length done = (p, r = 0)"
    by (simp add: nth_append)
  then have 2: "fst (getMotors_loop done ((p, False) # rest) h motors) ! length done = (p, r = 0)"
    by (simp only: 1)
  have 3: "snd (snd (getMotors_loop done ((p, False) # rest) h motors))
      = motors @ (if r = 0 then [sint p] else [])
          @ snd (snd (getMotors_loop (done @ [(p, r = 0)]) rest h' []))"
    unfolding 1
    by (subst getMotors_loop_acc) (simp split: prod.splits)
  show ?thesis using 1 2 3 by blast
qed

text \<open>
  The claim as stated fails where the configuration fails.  Port 2 is installed and flagged
  disconnected, its cartridge reads \<^verbatim>\<open>INVALID\<close>, so \<^verbatim>\<open>configureMotor\<close> returns 1: the flag is
  still unset after the call.
\<close>

theorem getMotors_reconnection_edge_counterexample:
  "installed (robot\<lparr>cartridge := (\<lambda>p. Cartridge_INVALID)\<rparr>) 2
   \<and> fst (configureMotor 2 [(2, False)] (robot\<lparr>cartridge := (\<lambda>p. Cartridge_INVALID)\<rparr>)) = 1
   \<and> m_motors (fst (snd (getMotors \<lparr>m_motors = [(2, False)], m_outputVelocity = 100\<rparr>
        (robot\<lparr>cartridge := (\<lambda>p. Cartridge_INVALID)\<rparr>)))) = [(2, False)]"
  by (simp add: getMotors_def configureMotor_def configureMotor_angle_def
      Motor_setAngle_def robot_def int8_def INT_MAX_def Let_def)

theorem getMotors_reconnection_edge_witness:
  "getMotors \<lparr>m_motors = [(1, True), (2, False)], m_outputVelocity = 100\<rparr> robot
     = ([1, 2], \<lparr>m_motors = [(1, True), (2, True)], m_outputVelocity = 100\<rparr>,
        snd (configureMotor 2 [(1, True), (2, False)] robot))
   \<and> getMotors \<lparr>m_motors = [(2, False)], m_outputVelocity = 100\<rparr>
        (robot\<lparr>cartridge := (\<lambda>p. Cartridge_INVALID)\<rparr>)
     = ([], \<lparr>m_motors = [(2, False)], m_outputVelocity = 100\<rparr>,
        snd (configureMotor 2 [(2, False)] (robot\<lparr>cartridge := (\<lambda>p. Cartridge_INVALID)\<rparr>)))"
proof -
  have i: "installed robot 1" "installed robot 2" "installed (robot\<lparr>cartridge := (\<lambda>p. Cartridge_INVALID)\<rparr>) 2"
    by (simp_all add: robot_def)
  obtain h1 where c1: "configureMotor (sint (2 :: 8 word)) ([(1, True)] @ (2, False) # []) robot = (0, h1)"
    by (simp add: configureMotor_def configureMotor_angle_def Motor_setBrakeMode_def
      Motor_setAngle_def robot_def int8_def INT_MAX_def Let_def)
  obtain h2 where c2: "configureMotor (sint (2 :: 8 word)) ([] @ (2, False) # [])
      (robot\<lparr>cartridge := (\<lambda>p. Cartridge_INVALID)\<rparr>) = (1, h2)"
    by (simp add: configureMotor_def configureMotor_angle_def Motor_setBrakeMode_def
      Motor_setAngle_def robot_def int8_def INT_MAX_def Let_def)
  show ?thesis
    using getMotors_reconnection_edge [OF _ c1, of "[1]"] getMotors_reconnection_edge [OF _ c2, of "[]"] i c1 c2
    by (simp add: getMotors_def)
qed

section \<open>getAngle\<close>

text \<open>
  What the loop of \<^verbatim>\<open>getAngle\<close> computes when every reading keeps the driver's contract:
  the sum of the corrected angles of the valid members, and the number of the others.
\<close>

lemma getAngle_loop_sum:
  assumes "list_all (\<lambda>m. reading_ok (angle h m)) motors"
  shows "getAngle_loop motors ov h (StDeg a) e =
     (StDeg (a + sum_list (map (corrected_angle ov h) (valid_members h motors))),
      e + int (length motors) - int (length (valid_members h motors)))"
  using assms
proof (induction motors arbitrary: a e)
  case Nil
  show ?case by (simp add: valid_members_def)
next
  case (Cons m motors)
  then have ok: "reading_ok (angle h m)" and rest: "list_all (\<lambda>m. reading_ok (angle h m)) motors"
    by simp_all
  show ?case
  proof (cases "angle h m")
    case (StDeg x)
    then show ?thesis
      using Cons.IH [OF rest]
      by (simp add: valid_members_def corrected_angle_def Let_def)
  next
    case INFINITY
    then show ?thesis using Cons.IH [OF rest] by (simp add: valid_members_def)
  next
    case NEG_INFINITY
    then show ?thesis using ok by simp
  next
    case NOT_A_NUMBER
    then show ?thesis using ok by simp
  qed
qed

text \<open>
  With no valid member, the empty working set included, \<^verbatim>\<open>getAngle\<close> returns the sentinel
  before it divides.
\<close>

lemma getAngle_loop_all_errors:
  assumes "valid_members h motors = []"
  shows "getAngle_loop motors ov h acc e = (acc, e + int (length motors))"
  using assms
proof (induction motors arbitrary: e)
  case Nil
  show ?case by simp
next
  case (Cons m motors)
  from Cons.prems have m: "angle h m = INFINITY \<or> cartridge h m = Cartridge_INVALID"
    and rest: "valid_members h motors = []"
    by (auto simp: valid_members_def split: if_splits)
  show ?case
    using m Cons.IH [OF rest, of "e + 1"] by (auto simp: Let_def)
qed

lemma getAngle_all_errors:
  assumes "getAngle_sum g h = (motors, acc, errors, g1, h1)"
    and "valid_members h1 motors = []"
  shows "fst (getAngle g h) = INFINITY"
proof -
  have "getAngle_loop motors (m_outputVelocity g1) h1 (StDeg 0) 0 = (acc, errors)"
    using assms(1) by (auto simp: getAngle_sum_def split: prod.splits)
  then have "errors = int (length motors)"
    using getAngle_loop_all_errors [OF assms(2), of "m_outputVelocity g1" "StDeg 0" 0] by simp
  then show ?thesis by (simp add: getAngle_def assms(1))
qed

text \<open>
  With a valid member, the result is the mean of the corrected angles of the valid members
  \<^emph>\<open>provided\<close> \<^verbatim>\<open>getSize()\<close>, which probes the motors again, counts as many members as the
  working set of the loop has.
\<close>

lemma getAngle_mean:
  assumes "getAngle_sum g h = (motors, acc, errors, g1, h1)"
    and "list_all (\<lambda>m. reading_ok (angle h1 m)) motors"
    and "valid_members h1 motors \<noteq> []"
    and "fst (getSize g1 h1) = int (length motors)"
  shows "fst (getAngle g h) =
     StDeg (sum_list (map (corrected_angle (m_outputVelocity g) h1) (valid_members h1 motors))
            / real (length (valid_members h1 motors)))"
proof -
  have gm: "getMotors g h = (motors, g1, h1)"
    and loop: "getAngle_loop motors (m_outputVelocity g1) h1 (StDeg 0) 0 = (acc, errors)"
    using assms(1) by (auto simp: getAngle_sum_def split: prod.splits)
  have ov: "m_outputVelocity g1 = m_outputVelocity g"
    using getMotors_outputVelocity [of g h] gm by simp
  have acc: "acc = StDeg (sum_list (map (corrected_angle (m_outputVelocity g) h1)
      (valid_members h1 motors)))"
    and errors: "errors = int (length motors) - int (length (valid_members h1 motors))"
    using getAngle_loop_sum [OF assms(2), of "m_outputVelocity g1" 0 0] loop by (simp_all add: ov)
  have pos: "0 < length (valid_members h1 motors)"
    using assms(3) by simp
  have div: "fst (getSize g1 h1) - errors = int (length (valid_members h1 motors))"
    using assms(4) errors by simp
  have ne: "errors \<noteq> int (length motors)"
    using errors pos by simp
  obtain sz g2 h2 where gs: "getSize g1 h1 = (sz, g2, h2)"
    by (cases "getSize g1 h1") auto
  have sz: "sz - errors = int (length (valid_members h1 motors))"
    using div gs by simp
  have "Angle_divide acc (sz - errors) =
      StDeg (sum_list (map (corrected_angle (m_outputVelocity g) h1) (valid_members h1 motors))
             / real_of_int (sz - errors))"
    using pos unfolding acc sz by simp
  then show ?thesis
    using ne by (simp add: getAngle_def assms(1) gs sz)
qed

text \<open>
  Claim C1 (a defect of the code).  The divisor is \<^verbatim>\<open>getSize() - errors\<close>, not the number of
  members that gave a valid reading.  On \<open>robot\<close>, with output velocity 100, the members read
  10 and 40 degrees at gear ratios 1 and 2, and \<^verbatim>\<open>getAngle\<close> returns their mean, 15 degrees.
  Let \<^verbatim>\<open>isConnected()\<close> of port 2 answer 0 when \<^verbatim>\<open>getSize\<close> asks, all readings as before: the
  sum is still 30, over the same two members, and \<^verbatim>\<open>getAngle\<close> returns 30 degrees.
\<close>

theorem getAngle_divides_by_reprobe_count:
  "fst (getAngle (MotorGroup_new [1, 2] 100) robot) = StDeg 15
   \<and> fst (getAngle (MotorGroup_new [1, 2] 100)
        (robot\<lparr>connected := (\<lambda>p. if p = 1 then 1 else 0)\<rparr>)) = StDeg 30"
  by (simp add: getAngle_def getAngle_sum_def getSize_def getMotors_def MotorGroup_new_def
      robot_def Let_def)

text \<open>
  Claim C7 (a defect of the code, the same as for C1).  The guard before the division
  compares \<open>errors\<close> with the size of the working set, the divisor is taken from \<^verbatim>\<open>getSize()\<close>.
  One member with a valid reading of 10 degrees whose \<^verbatim>\<open>isConnected()\<close> answers 0 passes the
  guard and is divided by \<open>0 - 0\<close>; the quotient of doubles is \<^verbatim>\<open>+inf\<close>, the error sentinel.
\<close>

theorem getAngle_divides_by_zero:
  "getAngle_divisor (MotorGroup_new [1] 100) (robot\<lparr>connected := (\<lambda>p. 0)\<rparr>) = Some 0
   \<and> fst (getAngle (MotorGroup_new [1] 100) (robot\<lparr>connected := (\<lambda>p. 0)\<rparr>)) = INFINITY"
  by (simp add: getAngle_divisor_def getAngle_def getAngle_sum_def getSize_def getMotors_def
      MotorGroup_new_def robot_def Let_def)

section \<open>configureMotor\<close>

text \<open>
  \<^verbatim>\<open>configureMotor\<close> writes a brake mode only to the motor it has just read that mode from,
  so no brake mode on the robot ever changes, that of the motor being configured included.
\<close>

lemma configureMotor_brakeMode_unchanged:
  "brakeMode (snd (configureMotor_brakeMode ms h)) = brakeMode h"
proof (induction ms)
  case Nil
  show ?case by simp
next
  case (Cons pair rest)
  then show ?case
    by (auto simp: Let_def Motor_setBrakeMode_def split: prod.splits)
qed

lemma configureMotor_keeps_brakeModes:
  "brakeMode (snd (configureMotor port ms h)) = brakeMode h"
proof -
  obtain s h1 where b: "configureMotor_brakeMode ms h = (s, h1)"
    by (cases "configureMotor_brakeMode ms h")
  have "brakeMode h1 = brakeMode h"
    using configureMotor_brakeMode_unchanged [of ms h] b by simp
  then show ?thesis
    by (simp add: configureMotor_def b Let_def Motor_setAngle_def split: prod.splits)
qed

text \<open>
  Claim C3 (a defect of the code).  The group tracks ports 3 (connected, holding) and 4
  (reconnecting, coasting); port 1 is a braking motor of no group.  Configuring port 4
  should copy \<^verbatim>\<open>HOLD\<close> from port 3 to port 4.  The code builds its motor from the flag of the
  pair \<open>(3, True)\<close>, which is port 1, and sends that motor its own mode: the only brake-mode
  command goes to port 1, and port 4 still coasts.
\<close>

theorem configureMotor_brake_mode_goes_to_flag_port:
  "issued (snd (configureMotor 4 [(3, True), (4, False)] robot34))
     = [SetBrakeMode 1 BRAKE, SetAngle 4 (StDeg 90)]
   \<and> brakeMode (snd (configureMotor 4 [(3, True), (4, False)] robot34)) 4 = COAST"
  by (simp add: configureMotor_def configureMotor_angle_def Motor_setBrakeMode_def
      Motor_setAngle_def robot34_def int8_def INT_MAX_def Let_def)

text \<open>
  The angle that \<^verbatim>\<open>configureMotor\<close> sets is the mean of the peers' readings as read, each in
  its own gear frame: no cartridge enters the sum, and \<^verbatim>\<open>m_outputVelocity\<close> is not used at all.
\<close>

lemma configureMotor_sum_raw:
  assumes "list_all (\<lambda>m. reading_ok (angle h m)) motors"
  shows "configureMotor_sum motors h (StDeg a) e =
     (StDeg (a + sum_list (map (\<lambda>m. to_stDeg (angle h m)) (valid_members h motors))),
      e + int (length motors) - int (length (valid_members h motors)))"
  using assms
proof (induction motors arbitrary: a e)
  case Nil
  show ?case by (simp add: valid_members_def)
next
  case (Cons m motors)
  then have ok: "reading_ok (angle h m)" and rest: "list_all (\<lambda>m. reading_ok (angle h m)) motors"
    by simp_all
  show ?case
  proof (cases "angle h m")
    case (StDeg x)
    then show ?thesis
      using Cons.IH [OF rest] by (simp add: valid_members_def Let_def)
  next
    case INFINITY
    then show ?thesis using Cons.IH [OF rest] by (simp add: valid_members_def)
  next
    case NEG_INFINITY
    then show ?thesis using ok by simp
  next
    case NOT_A_NUMBER
    then show ?thesis using ok by simp
  qed
qed

lemma configureMotor_angle_raw_mean:
  assumes "list_all (\<lambda>m. reading_ok (angle h m)) (configureMotor_motors port ms h)"
    and "valid_members h (configureMotor_motors port ms h) \<noteq> []"
  shows "configureMotor_angle port ms h =
     StDeg (sum_list (map (\<lambda>m. to_stDeg (angle h m))
               (valid_members h (configureMotor_motors port ms h)))
            / real (length (valid_members h (configureMotor_motors port ms h))))"
proof -
  have pos: "0 < length (valid_members h (configureMotor_motors port ms h))"
    using assms(2) by simp
  show ?thesis
    using pos
    by (simp add: configureMotor_angle_def Let_def configureMotor_sum_raw [OF assms(1), of 0 0])
qed

text \<open>
  Claim C2 (a defect of the code).  Port 1 (100 rpm cartridge) reads 10 degrees, which is 10
  degrees of the output shaft at output velocity 100.  Port 2 (200 rpm cartridge) reconnects;
  in its own frame the same shaft position is 20 degrees.  \<^verbatim>\<open>configureMotor\<close> sets it to 10
  degrees, the peer's raw reading, so port 2 now stands for 5 degrees of the output shaft.
\<close>

theorem configureMotor_sets_raw_mean:
  "issued (snd (configureMotor 2 [(1, True), (2, False)] robot))
     = [SetBrakeMode 1 COAST, SetAngle 2 (StDeg 10)]
   \<and> corrected_angle 100 robot 1 = 10
   \<and> corrected_angle 100 (snd (configureMotor 2 [(1, True), (2, False)] robot)) 2 = 5"
  by (simp add: configureMotor_def configureMotor_angle_def Motor_setBrakeMode_def
      Motor_setAngle_def robot_def int8_def INT_MAX_def Let_def corrected_angle_def)

end
